theory Spec2Isabelle
  imports Main "HOL-Library.Word"
begin

text \<open>
  A model of \<open>src/handler/CloudFront/imageResizer.ts\<close>, the Lambda@Edge handler that
  answers an origin response with a resized image, a pass-through, a redirect or an error.

  The handler is written in callback style. One invocation is modelled as the list of the
  completion signals it gives (calls of \<open>callback\<close> and uncaught exceptions), each with
  the millisecond at which it happens. The object store, the probe and the codec are
  parameters: what they return, and how long they take. The library functions the handler
  calls on strings and paths are modelled as the language and Node.js define them.
\<close>

section \<open>JavaScript values and library functions used by the handler\<close>

text \<open>
  A JavaScript string is the list of its UTF-16 code units; a Node \<open>Buffer\<close> is the
  list of its bytes. String literals of the source are written \<open>js ''...''\<close>.
\<close>

type_synonym jsstring = "nat list"

type_synonym buffer = "8 word list"

definition js :: "string \<Rightarrow> jsstring" where
  "js s = map of_char s"

datatype js_error = URIError | TypeError | StoreError | CodecError

subsection \<open>\<open>decodeURIComponent\<close> and \<open>decodeURI\<close> (ECMAScript \<open>Decode\<close>)\<close>

definition hex_digit :: "nat \<Rightarrow> nat option" where
  "hex_digit c =
     (if 48 \<le> c \<and> c \<le> 57 then Some (c - 48)
      else if 65 \<le> c \<and> c \<le> 70 then Some (c - 55)
      else if 97 \<le> c \<and> c \<le> 102 then Some (c - 87)
      else None)"

fun hex_octet :: "jsstring \<Rightarrow> nat option" where
  "hex_octet (h # l # _) =
     (case hex_digit h of None \<Rightarrow> None
      | Some a \<Rightarrow> (case hex_digit l of None \<Rightarrow> None | Some b \<Rightarrow> Some (16 * a + b)))"
| "hex_octet _ = None"

text \<open>The \<open>n\<close> continuation escapes \<open>%XX\<close> that follow the first octet of a sequence.\<close>

fun continuation :: "nat \<Rightarrow> jsstring \<Rightarrow> nat list option" where
  "continuation 0 s = Some []"
| "continuation (Suc n) (p # h # l # s) =
     (if p = 37 then
        (case hex_octet [h, l] of None \<Rightarrow> None
         | Some b \<Rightarrow> map_option (Cons b) (continuation n s))
      else None)"
| "continuation (Suc n) _ = None"

definition leading_ones :: "nat \<Rightarrow> nat" where
  "leading_ones b =
     (if b < 128 then 0 else if b < 192 then 1 else if b < 224 then 2
      else if b < 240 then 3 else if b < 248 then 4 else 5)"

definition is_cont :: "nat \<Rightarrow> bool" where
  "is_cont b = (128 \<le> b \<and> b < 192)"

text \<open>The code point of a well-formed UTF-8 sequence of two to four octets.\<close>

fun utf8_code_point :: "nat list \<Rightarrow> nat option" where
  "utf8_code_point [a, b] =
     (let v = (a - 192) * 64 + (b - 128)
      in if is_cont b \<and> 128 \<le> v then Some v else None)"
| "utf8_code_point [a, b, c] =
     (let v = (a - 224) * 4096 + (b - 128) * 64 + (c - 128)
      in if is_cont b \<and> is_cont c \<and> 2048 \<le> v \<and> (v < 55296 \<or> 57343 < v)
         then Some v else None)"
| "utf8_code_point [a, b, c, d] =
     (let v = (a - 240) * 262144 + (b - 128) * 4096 + (c - 128) * 64 + (d - 128)
      in if is_cont b \<and> is_cont c \<and> is_cont d \<and> 65536 \<le> v \<and> v \<le> 1114111
         then Some v else None)"
| "utf8_code_point _ = None"

definition utf16 :: "nat \<Rightarrow> jsstring" where
  "utf16 v =
     (if v < 65536 then [v]
      else [55296 + (v - 65536) div 1024, 56320 + (v - 65536) mod 1024])"

definition prepend :: "jsstring \<Rightarrow> js_error + jsstring \<Rightarrow> js_error + jsstring" where
  "prepend s r = (case r of Inl e \<Rightarrow> Inl e | Inr t \<Rightarrow> Inr (s @ t))"

text \<open>
  \<open>Decode reserved s\<close>: every escape \<open>%XX\<close> is replaced by the character it encodes,
  except that an escape of a character in \<open>reserved\<close> is kept as written; a malformed
  escape or an ill-formed UTF-8 sequence throws \<open>URIError\<close>.
\<close>

function Decode :: "nat list \<Rightarrow> jsstring \<Rightarrow> js_error + jsstring" where
  "Decode reserved [] = Inr []"
| "Decode reserved (c # s) =
     (if c \<noteq> 37 then prepend [c] (Decode reserved s)
      else
        (case hex_octet s of
           None \<Rightarrow> Inl URIError
         | Some b \<Rightarrow>
            (if b < 128 then
               prepend (if List.member reserved b then c # take 2 s else [b])
                 (Decode reserved (drop 2 s))
             else if leading_ones b = 1 \<or> 4 < leading_ones b then Inl URIError
             else
               (case continuation (leading_ones b - 1) (drop 2 s) of
                  None \<Rightarrow> Inl URIError
                | Some octets \<Rightarrow>
                   (case utf8_code_point (b # octets) of
                      None \<Rightarrow> Inl URIError
                    | Some v \<Rightarrow>
                       prepend (utf16 v)
                         (Decode reserved (drop (3 * (leading_ones b - 1)) (drop 2 s))))))))"
  by pat_completeness auto
termination
  by (relation "measure (\<lambda>(r, s). length s)") auto

definition decodeURIComponent :: "jsstring \<Rightarrow> js_error + jsstring" where
  "decodeURIComponent s = Decode [] s"

definition decodeURI :: "jsstring \<Rightarrow> js_error + jsstring" where
  "decodeURI s = Decode (js '';/?:@&=+$,#'') s"

subsection \<open>\<open>path.parse\<close> (POSIX), \<open>split\<close>, \<open>toLowerCase\<close>, \<open>toString('base64')\<close>\<close>

record path_object =
  p_root :: jsstring
  p_dir :: jsstring
  p_base :: jsstring
  p_ext :: jsstring
  p_name :: jsstring

text \<open>
  The variables of the backwards scan of \<open>path.parse\<close>; an index that the library
  holds as \<open>-1\<close> is \<open>None\<close> here.
\<close>

record scan =
  startDot :: "nat option"
  startPart :: nat
  endIdx :: "nat option"
  matchedSlash :: bool
  preDotState :: int

definition slice :: "jsstring \<Rightarrow> nat \<Rightarrow> nat \<Rightarrow> jsstring" where
  "slice s a b = take (b - a) (drop a s)"

text \<open>
  \<open>scan_back path start n st\<close> runs the loop \<open>for (i = n - 1; i >= start; --i)\<close>;
  a \<open>break\<close> returns the state at once.
\<close>

fun scan_back :: "jsstring \<Rightarrow> nat \<Rightarrow> nat \<Rightarrow> scan \<Rightarrow> scan" where
  "scan_back path start 0 st = st"
| "scan_back path start (Suc i) st =
     (if i < start then st
      else if path ! i = 47 then
        (if matchedSlash st then scan_back path start i st
         else st\<lparr>startPart := i + 1\<rparr>)
      else
        (let st1 = (if endIdx st = None
                    then st\<lparr>matchedSlash := False, endIdx := Some (i + 1)\<rparr> else st);
             st2 = (if path ! i = 46 then
                      (if startDot st1 = None then st1\<lparr>startDot := Some i\<rparr>
                       else if preDotState st1 \<noteq> 1 then st1\<lparr>preDotState := 1\<rparr>
                       else st1)
                    else if startDot st1 \<noteq> None then st1\<lparr>preDotState := - 1\<rparr>
                    else st1)
         in scan_back path start i st2))"

definition path_parse :: "jsstring \<Rightarrow> path_object" where
  "path_parse path =
     (if path = [] then \<lparr>p_root = [], p_dir = [], p_base = [], p_ext = [], p_name = []\<rparr>
      else
        (let isAbsolute = (hd path = 47);
             start = (if isAbsolute then 1 else 0);
             st = scan_back path start (length path)
                    \<lparr>startDot = None, startPart = 0, endIdx = None,
                     matchedSlash = True, preDotState = 0\<rparr>;
             ret = \<lparr>p_root = (if isAbsolute then [47] else []), p_dir = [], p_base = [],
                    p_ext = [], p_name = []\<rparr>;
             ret1 =
               (case endIdx st of
                  None \<Rightarrow> ret
                | Some e \<Rightarrow>
                   (let start1 = (if startPart st = 0 \<and> isAbsolute then 1 else startPart st)
                    in case startDot st of
                         None \<Rightarrow> ret\<lparr>p_base := slice path start1 e, p_name := slice path start1 e\<rparr>
                       | Some d \<Rightarrow>
                          (if preDotState st = 0 \<or>
                              (preDotState st = 1 \<and> d + 1 = e \<and> d = startPart st + 1)
                           then ret\<lparr>p_base := slice path start1 e,
                                    p_name := slice path start1 e\<rparr>
                           else ret\<lparr>p_name := slice path start1 d,
                                    p_base := slice path start1 e,
                                    p_ext := slice path d e\<rparr>)))
         in if 0 < startPart st then ret1\<lparr>p_dir := slice path 0 (startPart st - 1)\<rparr>
            else if isAbsolute then ret1\<lparr>p_dir := [47]\<rparr>
            else ret1))"

text \<open>\<open>s.split(sep)\<close> for a one-character separator.\<close>

fun split_on :: "nat \<Rightarrow> jsstring \<Rightarrow> jsstring list" where
  "split_on sep [] = [[]]"
| "split_on sep (c # cs) =
     (if c = sep then [] # split_on sep cs
      else (case split_on sep cs of [] \<Rightarrow> [[c]] | x # xs \<Rightarrow> (c # x) # xs))"

text \<open>
  \<open>toLowerCase\<close>: on a string of ASCII characters only it maps \<open>A..Z\<close> to \<open>a..z\<close>;
  on any other string it follows the Unicode case tables of the runtime, which are a
  parameter here.
\<close>

definition ascii_lower :: "nat \<Rightarrow> nat" where
  "ascii_lower c = (if 65 \<le> c \<and> c \<le> 90 then c + 32 else c)"

definition toLowerCase :: "(jsstring \<Rightarrow> jsstring) \<Rightarrow> jsstring \<Rightarrow> jsstring" where
  "toLowerCase unicode_lower s =
     (if list_all (\<lambda>c. c < 128) s then map ascii_lower s else unicode_lower s)"

definition b64_alphabet :: string where
  "b64_alphabet = ''ABCDEFGHIJKLMNOPQRSTUVWXYZabcdefghijklmnopqrstuvwxyz0123456789+/''"

definition b64_char :: "nat \<Rightarrow> nat" where
  "b64_char i = of_char (b64_alphabet ! (i mod 64))"

text \<open>\<open>Buffer.toString('base64')\<close>: three bytes give four characters, padded with \<open>=\<close>.\<close>

fun base64 :: "buffer \<Rightarrow> jsstring" where
  "base64 [] = []"
| "base64 [a] =
     (let n = unat a * 16 in [b64_char (n div 64), b64_char (n mod 64), 61, 61])"
| "base64 [a, b] =
     (let n = unat a * 1024 + unat b * 4
      in [b64_char (n div 4096), b64_char (n div 64 mod 64), b64_char (n mod 64), 61])"
| "base64 (a # b # c # rest) =
     (let n = unat a * 65536 + unat b * 256 + unat c
      in [b64_char (n div 262144), b64_char (n div 4096 mod 64),
          b64_char (n div 64 mod 64), b64_char (n mod 64)] @ base64 rest)"

subsection \<open>Property lookup on an object literal\<close>

text \<open>
  \<open>obj[k]\<close> on an object literal finds the literal's own properties and, failing that,
  the properties every object inherits from \<open>Object.prototype\<close>. The inherited ones are
  functions or objects: truthy, and without the fields \<open>x\<close> and \<open>y\<close>.
\<close>

datatype 'a js_prop = Own 'a | Inherited | Missing

definition Object_prototype :: "jsstring list" where
  "Object_prototype =
     [js ''constructor'', js ''__defineGetter__'', js ''__defineSetter__'',
      js ''hasOwnProperty'', js ''__lookupGetter__'', js ''__lookupSetter__'',
      js ''isPrototypeOf'', js ''propertyIsEnumerable'', js ''toString'', js ''valueOf'',
      js ''__proto__'', js ''toLocaleString'']"

definition js_get :: "(jsstring \<times> 'a) list \<Rightarrow> jsstring \<Rightarrow> 'a js_prop" where
  "js_get obj k =
     (case map_of obj k of
        Some v \<Rightarrow> Own v
      | None \<Rightarrow> if List.member Object_prototype k then Inherited else Missing)"

definition truthy :: "'a js_prop \<Rightarrow> bool" where
  "truthy v = (case v of Missing \<Rightarrow> False | _ \<Rightarrow> True)"

text \<open>A property key that is \<open>undefined\<close> is looked up as the string \<open>undefined\<close>.\<close>

definition ToString :: "jsstring option \<Rightarrow> jsstring" where
  "ToString v = (case v of None \<Rightarrow> js ''undefined'' | Some s \<Rightarrow> s)"

datatype js_num = JNull | JUndefined | JNum nat

text \<open>\<open>v > n\<close> for a number \<open>n\<close>: \<open>null\<close> counts as 0, \<open>undefined\<close> as NaN.\<close>

definition js_gt :: "js_num \<Rightarrow> nat \<Rightarrow> bool" where
  "js_gt v n = (case v of JNull \<Rightarrow> n < 0 | JUndefined \<Rightarrow> False | JNum m \<Rightarrow> n < m)"

section \<open>The handler of \<open>imageResizer.ts\<close>\<close>

subsection \<open>The event, the response envelope and the outside world\<close>

record header =
  hkey :: "jsstring option"
  hvalue :: jsstring

type_synonym headers = "jsstring \<rightharpoonup> header list"

record cf_response =
  status :: jsstring
  statusDescription :: jsstring
  headers :: headers

text \<open>
  What the handler passes to \<open>callback\<close>: \<open>IResponse\<close>, or for a redirect the spread
  of \<open>responseSuccessHeader\<close> alone, which has neither \<open>bodyEncoding\<close> nor \<open>body\<close>.
\<close>

record cf_result = cf_response +
  bodyEncoding :: "jsstring option"
  body :: "jsstring option"

text \<open>\<open>event.Records[0].cf\<close>: the viewer request's \<open>uri\<close> and the origin's response.\<close>

record cf_event =
  uri :: jsstring
  response :: cf_response

record s3_error =
  statusCode :: "nat option"

record s3_data =
  Body :: "buffer option"

datatype s3_reply = S3_throws js_error | S3_calls_back "s3_error option" "s3_data option"

text \<open>The object \<open>sizeOf\<close> returns; \<open>kind\<close> is its field \<open>type\<close>.\<close>

record image_size =
  width :: nat
  height :: nat
  kind :: jsstring

text \<open>
  The collaborators outside the repository: the object store (what \<open>S3.getObject\<close> does
  for a bucket and a key, and after how many milliseconds it calls back), the probe
  \<open>sizeOf\<close>, the codec chain \<open>Sharp(body, {animated}).withMetadata().resize(x, y,
  {fit: 'inside'}).webp().toBuffer()\<close> (its result and the milliseconds it takes), and the
  Unicode case tables.
\<close>

record env =
  getObject :: "jsstring \<Rightarrow> jsstring \<Rightarrow> s3_reply"
  getObject_ms :: nat
  sizeOf :: "buffer \<Rightarrow> js_error + image_size option"
  Sharp :: "buffer \<Rightarrow> bool \<Rightarrow> js_num \<Rightarrow> js_num \<Rightarrow> js_error + buffer"
  Sharp_ms :: nat
  unicode_lower :: "jsstring \<Rightarrow> jsstring"

text \<open>
  A completion signal of one invocation: \<open>callback(null, result)\<close>, \<open>callback(error)\<close>,
  or an exception nobody catches. A trace lists the signals with the millisecond at which
  each happens, counted from the invocation.
\<close>

datatype outcome = Callback_result cf_result | Callback_error js_error | Uncaught js_error

type_synonym trace = "(nat \<times> outcome) list"

subsection \<open>The tables\<close>

record box =
  box_x :: "nat option"
  box_y :: "nat option"

definition BUCKET_image :: jsstring where
  "BUCKET_image = js ''ogxyz-image''"

definition BUCKET_profile :: jsstring where
  "BUCKET_profile = js ''ogxyz-image-profile''"

definition imageType :: "(jsstring \<times> box) list" where
  "imageType =
     [(js ''original'', \<lparr>box_x = None, box_y = None\<rparr>),
      (js ''profile'', \<lparr>box_x = Some 200, box_y = Some 200\<rparr>),
      (js ''thumbnail'', \<lparr>box_x = Some 300, box_y = Some 300\<rparr>),
      (js ''miniThumbnail'', \<lparr>box_x = Some 150, box_y = Some 150\<rparr>),
      (js ''resized'', \<lparr>box_x = Some 1440, box_y = Some 1440\<rparr>)]"

definition validType :: "(jsstring \<times> jsstring) list" where
  "validType =
     [(js ''png'', js ''image/png''),
      (js ''jpg'', js ''image/jpg''),
      (js ''jpeg'', js ''image/jpeg''),
      (js ''gif'', js ''image/gif''),
      (js ''webp'', js ''image/webp''),
      (js ''svg+xml'', js ''image/svg+xml''),
      (js ''svg'', js ''image/svg+xml'')]"

definition polyfillHost :: jsstring where
  "polyfillHost = js ''https://d4gknzklml.execute-api.us-east-1.amazonaws.com''"

text \<open>
  The fields \<open>x\<close> and \<open>y\<close> of \<open>imageType[k]\<close>; reading a field of \<open>undefined\<close> throws.
\<close>

definition num :: "nat option \<Rightarrow> js_num" where
  "num v = (case v of None \<Rightarrow> JNull | Some n \<Rightarrow> JNum n)"

definition dims :: "box js_prop \<Rightarrow> (js_num \<times> js_num) option" where
  "dims v =
     (case v of
        Own b \<Rightarrow> Some (num (box_x b), num (box_y b))
      | Inherited \<Rightarrow> Some (JUndefined, JUndefined)
      | Missing \<Rightarrow> None)"

subsection \<open>The request: lines 114 to 123\<close>

definition nth_opt :: "'a list \<Rightarrow> nat \<Rightarrow> 'a option" where
  "nth_opt xs i = (if i < length xs then Some (xs ! i) else None)"

definition pathParse :: "path_object \<Rightarrow> jsstring list" where
  "pathParse URIPath = split_on 47 (p_dir URIPath)"

text \<open>\<open>pathParse[2]\<close>, which is \<open>undefined\<close> when the directory has fewer parts.\<close>

definition pathParse2 :: "path_object \<Rightarrow> jsstring option" where
  "pathParse2 URIPath = nth_opt (pathParse URIPath) 2"

definition ext :: "env \<Rightarrow> path_object \<Rightarrow> jsstring" where
  "ext e URIPath = toLowerCase (unicode_lower e) (remove1 46 (p_ext URIPath))"

definition bucketName :: "path_object \<Rightarrow> jsstring" where
  "bucketName URIPath =
     (if pathParse2 URIPath = Some (js ''profile'') then BUCKET_profile else BUCKET_image)"

subsection \<open>The responses: lines 92 to 112\<close>

definition responseSuccessHeaders :: "cf_event \<Rightarrow> headers" where
  "responseSuccessHeaders ev =
     (headers (response ev))
       (js ''cache-control'' \<mapsto>
          [\<lparr>hkey = Some (js ''Cache-Control''), hvalue = js ''max-age=31536000''\<rparr>],
        js ''content-type'' \<mapsto> [\<lparr>hkey = Some (js ''Content-Type''), hvalue = []\<rparr>])"

definition responseFailHeaders :: "cf_event \<Rightarrow> headers" where
  "responseFailHeaders ev =
     (headers (response ev))
       (js ''cache-control'' \<mapsto> [\<lparr>hkey = Some (js ''Cache-Control''), hvalue = js ''no-cache''\<rparr>],
        js ''content-type'' \<mapsto>
          [\<lparr>hkey = Some (js ''Content-Type''), hvalue = js ''application/json''\<rparr>])"

text \<open>\<open>callback(null, response)\<close> after \<open>response.body\<close> and the content type are set.\<close>

definition success :: "cf_event \<Rightarrow> jsstring \<Rightarrow> jsstring \<Rightarrow> cf_result" where
  "success ev b contentType =
     \<lparr>status = js ''200'', statusDescription = js ''OK'',
      headers = (responseSuccessHeaders ev)
        (js ''content-type'' \<mapsto> [\<lparr>hkey = Some (js ''Content-Type''), hvalue = contentType\<rparr>]),
      bodyEncoding = Some (js ''base64''), body = Some b\<rparr>"

text \<open>\<open>JSON.stringify({errorCode: code, errorMsg: msg})\<close> for the literals of the source.\<close>

definition json_error :: "jsstring \<Rightarrow> jsstring \<Rightarrow> jsstring" where
  \<open>json_error code msg =
     js ''{"errorCode":"'' @ code @ js ''","errorMsg":"'' @ msg @ js ''"}''\<close>

definition failure :: "cf_event \<Rightarrow> jsstring \<Rightarrow> jsstring \<Rightarrow> jsstring \<Rightarrow> cf_result" where
  "failure ev code description msg =
     \<lparr>status = code, statusDescription = description, headers = responseFailHeaders ev,
      bodyEncoding = Some (js ''text''), body = Some (json_error code msg)\<rparr>"

definition notFound :: "cf_event \<Rightarrow> cf_result" where
  "notFound ev = failure ev (js ''404'') (js ''Not Found'') (js ''Not Found'')"

text \<open>
  The redirect of lines 127 to 133, 228 to 233 and 253 to 258: the success header set
  with status \<open>302\<close> and a \<open>Location\<close>.
\<close>

definition redirect :: "cf_event \<Rightarrow> jsstring \<Rightarrow> cf_result" where
  "redirect ev location =
     \<lparr>status = js ''302'', statusDescription = js ''Found'',
      headers = (responseSuccessHeaders ev)
        (js ''location'' \<mapsto> [\<lparr>hkey = Some (js ''Location''), hvalue = location\<rparr>]),
      bodyEncoding = None, body = None\<rparr>"

text \<open>The template literal of the \<open>Location\<close>; \<open>decodeURI\<close> may throw.\<close>

definition locationValue :: "path_object \<Rightarrow> js_error + jsstring" where
  "locationValue URIPath =
     (case decodeURI (p_base URIPath) of
        Inl e \<Rightarrow> Inl e
      | Inr filename \<Rightarrow>
         Inr (polyfillHost @ js ''/prod/image/'' @ ToString (pathParse2 URIPath) @ js ''/''
              @ filename))"

subsection \<open>The callback of \<open>S3.getObject\<close>: lines 175 to 271\<close>

text \<open>The \<open>then\<close> of the codec's promise; what it throws reaches \<open>catch\<close>.\<close>

definition then_resized :: "cf_event \<Rightarrow> path_object \<Rightarrow> buffer \<Rightarrow> outcome" where
  "then_resized ev URIPath resizedImage =
     (let b = base64 resizedImage
      in if 1024 * 1024 < length b then
           (case locationValue URIPath of
              Inl e \<Rightarrow> Callback_error e
            | Inr l \<Rightarrow> Callback_result (redirect ev l))
         else Callback_result (success ev b (js ''image/webp'')))"

definition no_upscale :: "image_size option \<Rightarrow> js_num \<Rightarrow> js_num \<Rightarrow> bool" where
  "no_upscale probe x y =
     (case probe of
        None \<Rightarrow> False
      | Some sz \<Rightarrow> kind sz = js ''webp'' \<and> (js_gt x (width sz) \<or> js_gt y (height sz)))"

text \<open>\<open>err && err.statusCode === 404\<close>\<close>

definition is_404 :: "s3_error option \<Rightarrow> bool" where
  "is_404 err = (case err of None \<Rightarrow> False | Some er \<Rightarrow> statusCode er = Some 404)"

definition s3_callback ::
  "env \<Rightarrow> cf_event \<Rightarrow> path_object \<Rightarrow> nat \<Rightarrow> s3_error option \<Rightarrow> s3_data option \<Rightarrow> trace"
where
  "s3_callback e ev URIPath t err data =
     (if is_404 err then [(t, Callback_result (notFound ev))]
      else
        (case data of
           None \<Rightarrow>
             [(t, Callback_result
                    (failure ev (js ''500'') [] (js ''The file is not normal.'')))]
         | Some d \<Rightarrow>
            (case Body d of
               None \<Rightarrow> [(t, Callback_result (notFound ev))]
             | Some bytes \<Rightarrow>
                (if ext e URIPath = js ''svg'' then
                   [(t, Callback_result (success ev (base64 bytes) (js ''image/svg+xml'')))]
                 else
                   (case sizeOf e bytes of
                      Inl er \<Rightarrow> [(t, Uncaught er)]
                    | Inr probe \<Rightarrow>
                       (case dims (js_get imageType (ToString (pathParse2 URIPath))) of
                          None \<Rightarrow> [(t, Uncaught TypeError)]
                        | Some (x, y) \<Rightarrow>
                           (if no_upscale probe x y then
                              (if 1024 * 1024 < length bytes then
                                 [(t, case locationValue URIPath of
                                        Inl er \<Rightarrow> Uncaught er
                                      | Inr l \<Rightarrow> Callback_result (redirect ev l))]
                               else
                                 [(t, Callback_result
                                        (success ev (base64 bytes) (js ''image/webp'')))])
                            else
                              (case Sharp e bytes
                                      (List.member [js ''gif'', js ''webp''] (ext e URIPath)) x y of
                                 Inl er \<Rightarrow> [(t + Sharp_ms e, Callback_error er)]
                               | Inr resizedImage \<Rightarrow>
                                  [(t + Sharp_ms e,
                                    then_resized ev URIPath resizedImage)]))))))))"

subsection \<open>The handler: the timer, the \<open>try\<close> block and its \<open>finally\<close>\<close>

text \<open>
  The body of the outer \<open>try\<close> (lines 138 to 275), as far as it runs before the handler
  function returns: what it signals at once, at time 0, and, if it got as far as starting
  \<open>S3.getObject\<close>, the error and the data the store will call back with later. The
  typed event always carries the origin's response, so \<open>!originResponse\<close> is false.
\<close>

definition try_body ::
  "env \<Rightarrow> cf_event \<Rightarrow> path_object \<Rightarrow> trace \<times> (s3_error option \<times> s3_data option) option"
where
  "try_body e ev URIPath =
     (if status (response ev) = js ''404'' then ([(0, Callback_result (notFound ev))], None)
      else if \<not> truthy (js_get imageType (ToString (pathParse2 URIPath))) then
        ([(0, Callback_result (notFound ev))], None)
      else if \<not> truthy (js_get validType (ext e URIPath)) then
        ([(0, Callback_result
                (failure ev (js ''403'') (js ''Unsupported extension.'')
                   (js ''Unsupported extension.'')))], None)
      else
        (case decodeURI (p_base URIPath) of
           Inl er \<Rightarrow> ([(0, Callback_error er)], None)
         | Inr k \<Rightarrow>
            (case getObject e (bucketName URIPath) k of
               S3_throws er \<Rightarrow> ([(0, Callback_error er)], None)
             | S3_calls_back err data \<Rightarrow> ([], Some (err, data)))))"

text \<open>
  The timer of lines 126 to 134: when it is due, and when \<open>clearTimeout\<close> reached it
  (if ever). It fires if it is due before it is cleared.
\<close>

record timer =
  due :: nat
  cleared :: "nat option"

definition setTimeout :: "nat \<Rightarrow> timer" where
  "setTimeout ms = \<lparr>due = ms, cleared = None\<rparr>"

definition clearTimeout :: "nat \<Rightarrow> timer \<Rightarrow> timer" where
  "clearTimeout now tm = tm\<lparr>cleared := Some now\<rparr>"

definition fires :: "timer \<Rightarrow> bool" where
  "fires tm = (case cleared tm of None \<Rightarrow> True | Some c \<Rightarrow> due tm < c)"

definition timeout_callback :: "cf_event \<Rightarrow> path_object \<Rightarrow> outcome" where
  "timeout_callback ev URIPath =
     (case locationValue URIPath of
        Inl er \<Rightarrow> Uncaught er
      | Inr l \<Rightarrow> Callback_result (redirect ev l))"

text \<open>
  One invocation: every completion signal, in the order of time. A \<open>URIError\<close> of
  line 114 leaves the handler before the timer is set. Otherwise the handler function
  runs, in one go at time 0, \<open>setTimeout\<close> (line 126), the \<open>try\<close> block, and the
  \<open>finally\<close> with \<open>clearTimeout\<close> (line 277): a \<open>try\<close> block is left, and its
  \<open>finally\<close> runs, when \<open>S3.getObject\<close> has been started, not when its callback has
  run. The callback of \<open>getObject\<close> runs \<open>getObject_ms\<close> later, and the timer's
  callback when the timer is due, if it fires.
\<close>

definition handler :: "env \<Rightarrow> cf_event \<Rightarrow> trace" where
  "handler e ev =
     (case decodeURIComponent (uri ev) of
        Inl er \<Rightarrow> [(0, Uncaught er)]
      | Inr s \<Rightarrow>
         (let URIPath = path_parse s;
              timer0 = setTimeout (5 * 1000);
              (at_once, started) = try_body e ev URIPath;
              timer1 = clearTimeout 0 timer0;
              later = (case started of
                         None \<Rightarrow> []
                       | Some (err, data) \<Rightarrow>
                           s3_callback e ev URIPath (getObject_ms e) err data)
          in sort_key fst
               (at_once @ later @
                (if fires timer1 then [(due timer1, timeout_callback ev URIPath)] else []))))"

text \<open>The runtime takes the first completion signal as the response of the invocation.\<close>

definition delivered :: "env \<Rightarrow> cf_event \<Rightarrow> (nat \<times> outcome) option" where
  "delivered e ev = (case handler e ev of [] \<Rightarrow> None | r # _ \<Rightarrow> Some r)"

subsection \<open>Example requests and worlds\<close>

definition origin_ok :: cf_response where
  "origin_ok = \<lparr>status = js ''200'', statusDescription = js ''OK'', headers = Map.empty\<rparr>"

definition request :: "string \<Rightarrow> cf_event" where
  "request u = \<lparr>uri = js u, response = origin_ok\<rparr>"

text \<open>The store's callback for an object that exists: no error, and the bytes.\<close>

definition stored :: "buffer \<Rightarrow> s3_reply" where
  "stored bytes = S3_calls_back None (Some \<lparr>Body = Some bytes\<rparr>)"

text \<open>
  A world in which the store answers every key with \<open>reply\<close> after \<open>ms\<close> milliseconds,
  the probe reports \<open>probe\<close>, and the codec chain settles with \<open>out\<close> after 30 more.
\<close>

definition world :: "s3_reply \<Rightarrow> nat \<Rightarrow> image_size option \<Rightarrow> js_error + buffer \<Rightarrow> env" where
  "world reply ms probe out =
     \<lparr>getObject = (\<lambda>bucket k. reply), getObject_ms = ms, sizeOf = (\<lambda>bytes. Inr probe),
      Sharp = (\<lambda>bytes animated x y. out), Sharp_ms = 30, unicode_lower = (\<lambda>s. s)\<rparr>"

definition webp_image :: "nat \<Rightarrow> nat \<Rightarrow> image_size option" where
  "webp_image w h = Some \<lparr>width = w, height = h, kind = js ''webp''\<rparr>"

definition png_image :: "nat \<Rightarrow> nat \<Rightarrow> image_size option" where
  "png_image w h = Some \<lparr>width = w, height = h, kind = js ''png''\<rparr>"

section \<open>Properties\<close>

subsection \<open>Strings, base64 and the shape of a trace\<close>

lemma js_eq_iff [simp]: "js a = js b \<longleftrightarrow> a = b"
  unfolding js_def by (simp add: inj_map_eq_map inj_on_def)

lemma js_append: "js a @ js b = js (a @ b)"
  by (simp add: js_def)

lemma js_append2: "js a @ js b @ r = js (a @ b) @ r"
  by (simp add: js_def)

lemma base64_length: "length (base64 bs) = 4 * ((length bs + 2) div 3)"
proof (induction bs rule: base64.induct)
  case (4 a b c rest)
  then show ?case by (simp add: Let_def) arith
qed (simp_all add: Let_def)

lemma base64_examples:
  "base64 [9, 9] = js ''CQk=''"
  "base64 [1, 2, 3] = js ''AQID''"
  by (simp_all add: b64_char_def b64_alphabet_def js_def)

lemma timer_cleared: "fires (clearTimeout 0 tm) = False"
  by (simp add: fires_def clearTimeout_def)

lemma s3_callback_single: "\<exists>t' r. s3_callback e ev p t err data = [(t', r)]"
  unfolding s3_callback_def
  by (simp split: option.splits sum.splits prod.splits)

text \<open>
  The timer never fires, and every path gives one signal: the trace is what the \<open>try\<close>
  block signals at once, or else what the callback of \<open>getObject\<close> signals.
\<close>

lemma handler_decoded:
  assumes "decodeURIComponent (uri ev) = Inr s"
  shows "handler e ev =
     (if status (response ev) = js ''404'' then [(0, Callback_result (notFound ev))]
      else if \<not> truthy (js_get imageType (ToString (pathParse2 (path_parse s)))) then
        [(0, Callback_result (notFound ev))]
      else if \<not> truthy (js_get validType (ext e (path_parse s))) then
        [(0, Callback_result
               (failure ev (js ''403'') (js ''Unsupported extension.'')
                  (js ''Unsupported extension.'')))]
      else
        (case decodeURI (p_base (path_parse s)) of
           Inl er \<Rightarrow> [(0, Callback_error er)]
         | Inr k \<Rightarrow>
            (case getObject e (bucketName (path_parse s)) k of
               S3_throws er \<Rightarrow> [(0, Callback_error er)]
             | S3_calls_back err data \<Rightarrow>
                 s3_callback e ev (path_parse s) (getObject_ms e) err data)))"
proof -
  have single: "sort_key fst (s3_callback e ev p t err data) = s3_callback e ev p t err data"
    for p t err data
    using s3_callback_single [of e ev p t err data] by auto
  show ?thesis
    using assms
    by (simp add: handler_def try_body_def timer_cleared single Let_def
        split: sum.splits s3_reply.splits)
qed

lemma handler_single: "\<exists>t r. handler e ev = [(t, r)]"
proof (cases "decodeURIComponent (uri ev)")
  case (Inl er)
  then show ?thesis by (simp add: handler_def)
next
  case (Inr s)
  then show ?thesis
    using s3_callback_single
    by (simp add: handler_decoded split: sum.splits s3_reply.splits)
qed

lemma request_uri:
  assumes "decodeURIComponent (js u) = Inr s"
  shows "decodeURIComponent (uri (request u)) = Inr s"
  using assms by (simp add: request_def)

lemma ext_ascii:
  assumes "remove1 46 (p_ext p) = js s" and "list_all (\<lambda>c. c < 128) (js s)"
    and "map ascii_lower (js s) = js s'"
  shows "ext e p = js s'"
  using assms by (simp add: ext_def toLowerCase_def)

lemma request_ok: "status (response (request u)) \<noteq> js ''404''"
  by (simp add: request_def origin_ok_def)

lemma dims_truthy: "dims v = Some xy \<Longrightarrow> truthy v"
  by (cases v) (simp_all add: dims_def truthy_def)

lemma null_never_greater: "no_upscale probe JNull JNull = False"
  by (simp add: no_upscale_def js_gt_def split: option.splits)

lemma status_of [simp]:
  "status (notFound ev) = js ''404''"
  "status (failure ev c d m) = c"
  "status (success ev b ct) = js ''200''"
  "status (redirect ev l) = js ''302''"
  by (simp_all add: notFound_def failure_def success_def redirect_def)

subsection \<open>The tables at the keys of the examples\<close>

lemma imageType_at:
  "js_get imageType (js ''original'') = Own \<lparr>box_x = None, box_y = None\<rparr>"
  "js_get imageType (js ''thumbnail'') = Own \<lparr>box_x = Some 300, box_y = Some 300\<rparr>"
  "js_get imageType (js ''constructor'') = Inherited"
  "js_get imageType (js ''unknownprofile'') = Missing"
  by code_simp+

lemma validType_at:
  "js_get validType (js ''png'') = Own (js ''image/png'')"
  "js_get validType (js ''webp'') = Own (js ''image/webp'')"
  "js_get validType (js ''svg'') = Own (js ''image/svg+xml'')"
  "js_get validType (js ''svg+xml'') = Own (js ''image/svg+xml'')"
  "js_get validType (js ''constructor'') = Inherited"
  "js_get validType (js ''bmp'') = Missing"
  by code_simp+

text \<open>The five raster extensions of \<open>validType\<close>: each is in the table, none is \<open>svg\<close>.\<close>

lemma raster_at:
  "js_get validType (js ''jpg'') = Own (js ''image/jpg'')"
  "js_get validType (js ''jpeg'') = Own (js ''image/jpeg'')"
  "js_get validType (js ''gif'') = Own (js ''image/gif'')"
  by code_simp+

lemma raster_ext:
  assumes "x \<in> set [js ''png'', js ''jpg'', js ''jpeg'', js ''gif'', js ''webp'']"
  shows "truthy (js_get validType x)" and "x \<noteq> js ''svg''"
  using assms by (auto simp: validType_at raster_at truthy_def)

lemma base64_within:
  assumes "length bs \<le> 786432"
  shows "\<not> 1024 * 1024 < length (base64 bs)"
  using assms by (simp add: base64_length)

lemma base64_beyond:
  assumes "1024 * 1024 < length bs"
  shows "1024 * 1024 < length (base64 bs)"
  using assms by (simp add: base64_length)

subsection \<open>The example paths, parsed\<close>

lemma thumbnail_webp:
  "decodeURIComponent (js ''/image/thumbnail/a.webp'') = Inr (js ''/image/thumbnail/a.webp'')"
  "pathParse2 (path_parse (js ''/image/thumbnail/a.webp'')) = Some (js ''thumbnail'')"
  "p_base (path_parse (js ''/image/thumbnail/a.webp'')) = js ''a.webp''"
  "decodeURI (js ''a.webp'') = Inr (js ''a.webp'')"
  "remove1 46 (p_ext (path_parse (js ''/image/thumbnail/a.webp''))) = js ''webp''"
  "list_all (\<lambda>c. c < 128) (js ''webp'')"
  "map ascii_lower (js ''webp'') = js ''webp''"
  by code_simp+

lemma thumbnail_webp_ext: "ext e (path_parse (js ''/image/thumbnail/a.webp'')) = js ''webp''"
  by (rule ext_ascii [OF thumbnail_webp(5,6,7)])

lemmas thumbnail_webp_run = handler_decoded [OF request_uri [OF thumbnail_webp(1)]]

lemma original_png:
  "decodeURIComponent (js ''/image/original/a.png'') = Inr (js ''/image/original/a.png'')"
  "pathParse2 (path_parse (js ''/image/original/a.png'')) = Some (js ''original'')"
  "p_base (path_parse (js ''/image/original/a.png'')) = js ''a.png''"
  "decodeURI (js ''a.png'') = Inr (js ''a.png'')"
  "remove1 46 (p_ext (path_parse (js ''/image/original/a.png''))) = js ''png''"
  "list_all (\<lambda>c. c < 128) (js ''png'')"
  "map ascii_lower (js ''png'') = js ''png''"
  by code_simp+

lemma original_png_ext: "ext e (path_parse (js ''/image/original/a.png'')) = js ''png''"
  by (rule ext_ascii [OF original_png(5,6,7)])

lemmas original_png_run = handler_decoded [OF request_uri [OF original_png(1)]]

lemma original_svg_xml:
  "decodeURIComponent (js ''/image/original/logo.svg+xml'')
   = Inr (js ''/image/original/logo.svg+xml'')"
  "pathParse2 (path_parse (js ''/image/original/logo.svg+xml'')) = Some (js ''original'')"
  "p_base (path_parse (js ''/image/original/logo.svg+xml'')) = js ''logo.svg+xml''"
  "decodeURI (js ''logo.svg+xml'') = Inr (js ''logo.svg+xml'')"
  "remove1 46 (p_ext (path_parse (js ''/image/original/logo.svg+xml''))) = js ''svg+xml''"
  "list_all (\<lambda>c. c < 128) (js ''svg+xml'')"
  "map ascii_lower (js ''svg+xml'') = js ''svg+xml''"
  by code_simp+

lemma original_svg_xml_ext:
  "ext e (path_parse (js ''/image/original/logo.svg+xml'')) = js ''svg+xml''"
  by (rule ext_ascii [OF original_svg_xml(5,6,7)])

lemmas original_svg_xml_run = handler_decoded [OF request_uri [OF original_svg_xml(1)]]

lemma original_svg:
  "decodeURIComponent (js ''/image/original/a.svg'') = Inr (js ''/image/original/a.svg'')"
  "pathParse2 (path_parse (js ''/image/original/a.svg'')) = Some (js ''original'')"
  "p_base (path_parse (js ''/image/original/a.svg'')) = js ''a.svg''"
  "decodeURI (js ''a.svg'') = Inr (js ''a.svg'')"
  "remove1 46 (p_ext (path_parse (js ''/image/original/a.svg''))) = js ''svg''"
  "list_all (\<lambda>c. c < 128) (js ''svg'')"
  "map ascii_lower (js ''svg'') = js ''svg''"
  by code_simp+

lemma original_svg_ext: "ext e (path_parse (js ''/image/original/a.svg'')) = js ''svg''"
  by (rule ext_ascii [OF original_svg(5,6,7)])

lemmas original_svg_run = handler_decoded [OF request_uri [OF original_svg(1)]]

lemma constructor_svg:
  "decodeURIComponent (js ''/image/constructor/a.svg'') = Inr (js ''/image/constructor/a.svg'')"
  "pathParse2 (path_parse (js ''/image/constructor/a.svg'')) = Some (js ''constructor'')"
  "p_base (path_parse (js ''/image/constructor/a.svg'')) = js ''a.svg''"
  "remove1 46 (p_ext (path_parse (js ''/image/constructor/a.svg''))) = js ''svg''"
  by code_simp+

lemma constructor_svg_ext: "ext e (path_parse (js ''/image/constructor/a.svg'')) = js ''svg''"
  by (rule ext_ascii [OF constructor_svg(4) original_svg(6,7)])

lemmas constructor_svg_run = handler_decoded [OF request_uri [OF constructor_svg(1)]]

lemma original_constructor:
  "decodeURIComponent (js ''/image/original/a.constructor'')
   = Inr (js ''/image/original/a.constructor'')"
  "pathParse2 (path_parse (js ''/image/original/a.constructor'')) = Some (js ''original'')"
  "p_base (path_parse (js ''/image/original/a.constructor'')) = js ''a.constructor''"
  "decodeURI (js ''a.constructor'') = Inr (js ''a.constructor'')"
  "remove1 46 (p_ext (path_parse (js ''/image/original/a.constructor''))) = js ''constructor''"
  "list_all (\<lambda>c. c < 128) (js ''constructor'')"
  "map ascii_lower (js ''constructor'') = js ''constructor''"
  by code_simp+

lemma original_constructor_ext:
  "ext e (path_parse (js ''/image/original/a.constructor'')) = js ''constructor''"
  by (rule ext_ascii [OF original_constructor(5,6,7)])

lemmas original_constructor_run = handler_decoded [OF request_uri [OF original_constructor(1)]]



lemma unknown_profile_png:
  "decodeURIComponent (js ''/image/unknownprofile/x.png'')
   = Inr (js ''/image/unknownprofile/x.png'')"
  "pathParse2 (path_parse (js ''/image/unknownprofile/x.png'')) = Some (js ''unknownprofile'')"
  by code_simp+

lemma original_bmp:
  "decodeURIComponent (js ''/image/original/picture.bmp'')
   = Inr (js ''/image/original/picture.bmp'')"
  "pathParse2 (path_parse (js ''/image/original/picture.bmp'')) = Some (js ''original'')"
  "remove1 46 (p_ext (path_parse (js ''/image/original/picture.bmp''))) = js ''bmp''"
  "list_all (\<lambda>c. c < 128) (js ''bmp'')"
  "map ascii_lower (js ''bmp'') = js ''bmp''"
  by code_simp+

lemma original_bmp_ext: "ext e (path_parse (js ''/image/original/picture.bmp'')) = js ''bmp''"
  by (rule ext_ascii [OF original_bmp(3,4,5)])

lemmas run_defs =
  s3_callback_def then_resized_def locationValue_def no_upscale_def
  truthy_def ToString_def dims_def num_def js_gt_def is_404_def bucketName_def
  world_def stored_def webp_image_def png_image_def request_ok

subsection \<open>The payload ceiling\<close>

text \<open>
  Claim C1: a candidate body over 1,048,576 bytes is answered with the redirect, and the
  same ceiling, measured on the body's byte length, applies to the pass-through body and
  to the resized body alike.

  The check of line 227 compares \<open>data.Body.length\<close>, a number of bytes, with
  \<open>1024 * 1024\<close>. The check of line 252 compares \<open>response.body.length\<close>, and
  \<open>response.body\<close> is by then the base64 text of the resized image, four characters
  for every three bytes. The two paths therefore do not apply the same ceiling. The
  theorem runs the handler twice with the same candidate body of 786,433 bytes: as the
  stored WebP that is passed through it is delivered with status 200, as the codec's
  output it is answered with the redirect.
\<close>

theorem size_limit_measures_differ:
  "handler (world (stored (replicate 786433 0)) 120 (webp_image 100 100) (Inr []))
     (request ''/image/thumbnail/a.webp'')
   = [(120, Callback_result
              (success (request ''/image/thumbnail/a.webp'') (base64 (replicate 786433 0))
                 (js ''image/webp'')))]
   \<and> handler (world (stored [1, 2, 3]) 120 (webp_image 4000 3000) (Inr (replicate 786433 0)))
       (request ''/image/thumbnail/a.webp'')
     = [(150, Callback_result
                (redirect (request ''/image/thumbnail/a.webp'')
                   (polyfillHost @ js ''/prod/image/thumbnail/a.webp'')))]"
  by (simp add: thumbnail_webp_run thumbnail_webp thumbnail_webp_ext
      imageType_at validType_at run_defs base64_length js_append)

subsection \<open>The deadline\<close>

text \<open>
  Claim C2: if the pipeline has produced no response within 5000 ms, the redirect of the
  timer is delivered, and the timer is cleared only when the pipeline has completed.

  \<open>clearTimeout\<close> stands in the \<open>finally\<close> of the outer \<open>try\<close>, and the \<open>try\<close> block is
  left as soon as \<open>S3.getObject\<close> has been started. The timer is cleared at
  millisecond 0 and never fires. In the run below the store answers after 6000 ms, and
  what is delivered, at 6000 ms, is the response of the pipeline with status 200.
\<close>

theorem deadline_not_enforced:
  "\<not> fires (clearTimeout 0 (setTimeout (5 * 1000)))
   \<and> handler (world (stored [1, 2, 3]) 6000 (webp_image 100 100) (Inr []))
       (request ''/image/thumbnail/a.webp'')
     = [(6000, Callback_result
                 (success (request ''/image/thumbnail/a.webp'') (base64 [1, 2, 3])
                    (js ''image/webp'')))]
   \<and> delivered (world (stored [1, 2, 3]) 6000 (webp_image 100 100) (Inr []))
       (request ''/image/thumbnail/a.webp'')
     = Some (6000, Callback_result
                     (success (request ''/image/thumbnail/a.webp'') (base64 [1, 2, 3])
                        (js ''image/webp'')))"
proof -
  have "handler (world (stored [1, 2, 3]) 6000 (webp_image 100 100) (Inr []))
       (request ''/image/thumbnail/a.webp'')
     = [(6000, Callback_result
                 (success (request ''/image/thumbnail/a.webp'') (base64 [1, 2, 3])
                    (js ''image/webp'')))]"
    by (simp add: thumbnail_webp_run thumbnail_webp
        thumbnail_webp_ext imageType_at validType_at run_defs)
  then show ?thesis
    by (simp add: delivered_def timer_cleared)
qed

subsection \<open>The bypass of the codec\<close>

text \<open>
  Claim C3, as the specification states it: when the probed source equals or exceeds the
  target box in both dimensions and is WebP, the body of the 200 response is the source.

  It fails for a WebP of 4000 by 3000 requested as \<open>thumbnail\<close> (300 by 300): the
  condition of line 225 is false, the bytes go through the codec, and the body is the
  base64 text of the codec's output, which differs from that of the source.
\<close>

theorem no_upscale_counterexample:
  "sizeOf (world (stored [1, 2, 3]) 120 (webp_image 4000 3000) (Inr [9, 9])) [1, 2, 3]
     = Inr (webp_image 4000 3000)
   \<and> dims (js_get imageType (js ''thumbnail'')) = Some (JNum 300, JNum 300)
   \<and> handler (world (stored [1, 2, 3]) 120 (webp_image 4000 3000) (Inr [9, 9]))
       (request ''/image/thumbnail/a.webp'')
     = [(150, Callback_result
                (success (request ''/image/thumbnail/a.webp'') (base64 [9, 9])
                   (js ''image/webp'')))]
   \<and> base64 [9, 9] \<noteq> base64 [1, 2, 3]"
proof (intro conjI)
  show "base64 [9, 9] \<noteq> base64 [1, 2, 3]"
    unfolding base64_examples by simp
qed (simp_all add: thumbnail_webp_run thumbnail_webp thumbnail_webp_ext
      imageType_at validType_at run_defs)

text \<open>
  Claim C3, amended: take a request that passed the checks, with a profile of the table,
  one of the raster extensions \<open>png\<close>, \<open>jpg\<close>, \<open>jpeg\<close>, \<open>gif\<close>, \<open>webp\<close>, a fetched
  object, and a probe that reports WebP.

  If the target width exceeds the probed width or the target height exceeds the probed
  height (resizing would enlarge the image), the stored bytes are not handed to the codec:
  the response is 200 with the base64 text of the stored bytes and content type
  \<open>image/webp\<close>, unless the stored body is longer than 1,048,576 bytes, when it is the
  redirect.

  If the probed source equals or exceeds the target box in both dimensions, the stored
  bytes are handed to the codec, and the response comes \<open>Sharp_ms\<close> later and carries
  the codec's output, not the source: the codec's error goes to the callback; an output
  of at most 786,432 bytes is delivered with status 200 as base64 text with content type
  \<open>image/webp\<close>; an output of more than 1,048,576 bytes is answered with the redirect.
\<close>

theorem no_upscale_passthrough:
  assumes "decodeURIComponent (uri ev) = Inr s"
    and "status (response ev) \<noteq> js ''404''"
    and "js_get imageType (ToString (pathParse2 (path_parse s))) = Own b"
    and "ext e (path_parse s) \<in> set [js ''png'', js ''jpg'', js ''jpeg'', js ''gif'', js ''webp'']"
    and "decodeURI (p_base (path_parse s)) = Inr k"
    and "getObject e (bucketName (path_parse s)) k = S3_calls_back err (Some d)"
    and "\<not> is_404 err"
    and "Body d = Some bytes"
    and "sizeOf e bytes = Inr (Some sz)"
    and "kind sz = js ''webp''"
  shows "(js_gt (num (box_x b)) (width sz) \<or> js_gt (num (box_y b)) (height sz) \<longrightarrow>
          handler e ev =
            [(getObject_ms e,
              Callback_result
                (if 1024 * 1024 < length bytes
                 then redirect ev
                        (polyfillHost @ js ''/prod/image/''
                         @ ToString (pathParse2 (path_parse s)) @ js ''/'' @ k)
                 else success ev (base64 bytes) (js ''image/webp'')))])
       \<and> (\<not> js_gt (num (box_x b)) (width sz) \<and> \<not> js_gt (num (box_y b)) (height sz) \<longrightarrow>
            (case Sharp e bytes (List.member [js ''gif'', js ''webp''] (ext e (path_parse s)))
                    (num (box_x b)) (num (box_y b)) of
               Inl er \<Rightarrow>
                 handler e ev = [(getObject_ms e + Sharp_ms e, Callback_error er)]
             | Inr resizedImage \<Rightarrow>
                 (length resizedImage \<le> 786432 \<longrightarrow>
                    handler e ev =
                      [(getObject_ms e + Sharp_ms e,
                        Callback_result
                          (success ev (base64 resizedImage) (js ''image/webp'')))])
                 \<and> (1024 * 1024 < length resizedImage \<longrightarrow>
                      handler e ev =
                        [(getObject_ms e + Sharp_ms e,
                          Callback_result
                            (redirect ev
                               (polyfillHost @ js ''/prod/image/''
                                @ ToString (pathParse2 (path_parse s)) @ js ''/'' @ k)))])))"
proof -
  let ?p = "path_parse s"
  have t: "truthy (js_get imageType (ToString (pathParse2 ?p)))"
    using assms(3) by (simp add: truthy_def)
  have d: "dims (js_get imageType (ToString (pathParse2 ?p)))
           = Some (num (box_x b), num (box_y b))"
    using assms(3) by (simp add: dims_def)
  have u: "no_upscale (Some sz) (num (box_x b)) (num (box_y b))
           = (js_gt (num (box_x b)) (width sz) \<or> js_gt (num (box_y b)) (height sz))"
    using assms(10) by (simp add: no_upscale_def)
  note r = raster_ext [OF assms(4)]
  have run: "handler e ev =
     (if js_gt (num (box_x b)) (width sz) \<or> js_gt (num (box_y b)) (height sz) then
        [(getObject_ms e,
          Callback_result
            (if 1024 * 1024 < length bytes
             then redirect ev
                    (polyfillHost @ js ''/prod/image/'' @ ToString (pathParse2 ?p) @ js ''/'' @ k)
             else success ev (base64 bytes) (js ''image/webp'')))]
      else
        (case Sharp e bytes (List.member [js ''gif'', js ''webp''] (ext e ?p))
                (num (box_x b)) (num (box_y b)) of
           Inl er \<Rightarrow> [(getObject_ms e + Sharp_ms e, Callback_error er)]
         | Inr resizedImage \<Rightarrow>
             [(getObject_ms e + Sharp_ms e, then_resized ev ?p resizedImage)]))"
    using assms(1,2,5-9) t d u r
    by (simp add: handler_decoded s3_callback_def locationValue_def)
  have loc: "locationValue ?p
             = Inr (polyfillHost @ js ''/prod/image/'' @ ToString (pathParse2 ?p) @ js ''/'' @ k)"
    using assms(5) by (simp add: locationValue_def)
  have small: "then_resized ev ?p x = Callback_result (success ev (base64 x) (js ''image/webp''))"
    if "length x \<le> 786432" for x
    using base64_within [OF that] by (simp add: then_resized_def Let_def)
  have big: "then_resized ev ?p x
             = Callback_result
                 (redirect ev
                    (polyfillHost @ js ''/prod/image/'' @ ToString (pathParse2 ?p) @ js ''/'' @ k))"
    if "1024 * 1024 < length x" for x
    using base64_beyond [OF that] loc by (simp add: then_resized_def Let_def)
  show ?thesis
    using run small big by (auto split: sum.splits)
qed

text \<open>
  Claim C3, amended, for \<open>thumbnail\<close> (300 by 300): a WebP of 100 by 100 comes back as
  it is stored; a WebP of exactly 300 by 300 goes to the codec, and the codec's output
  comes back.
\<close>

theorem no_upscale_passthrough_witness:
  "js_get imageType (js ''thumbnail'') = Own \<lparr>box_x = Some 300, box_y = Some 300\<rparr>
   \<and> js_gt (num (Some 300)) 100
   \<and> handler (world (stored [1, 2, 3]) 120 (webp_image 100 100) (Inr [9, 9]))
       (request ''/image/thumbnail/a.webp'')
     = [(120, Callback_result
                (success (request ''/image/thumbnail/a.webp'') (base64 [1, 2, 3])
                   (js ''image/webp'')))]
   \<and> \<not> js_gt (num (Some 300)) 300
   \<and> handler (world (stored [1, 2, 3]) 120 (webp_image 300 300) (Inr [9, 9]))
       (request ''/image/thumbnail/a.webp'')
     = [(150, Callback_result
                (success (request ''/image/thumbnail/a.webp'') (base64 [9, 9])
                   (js ''image/webp'')))]"
proof -
  let ?r = "request ''/image/thumbnail/a.webp''"
  let ?s = "js ''/image/thumbnail/a.webp''"
  let ?b = "\<lparr>box_x = Some 300, box_y = Some (300 :: nat)\<rparr>"
  let ?w1 = "world (stored [1, 2, 3]) 120 (webp_image 100 100) (Inr [9, 9])"
  let ?w2 = "world (stored [1, 2, 3]) 120 (webp_image 300 300) (Inr [9, 9])"
  let ?small = "\<lparr>width = 100, height = 100, kind = js ''webp''\<rparr>"
  let ?equal = "\<lparr>width = 300, height = 300, kind = js ''webp''\<rparr>"
  have 1: "decodeURIComponent (uri ?r) = Inr ?s"
    by (simp add: request_def thumbnail_webp)
  have 3: "js_get imageType (ToString (pathParse2 (path_parse ?s))) = Own ?b"
    by (simp add: thumbnail_webp ToString_def imageType_at)
  have 4: "ext w (path_parse ?s) \<in> set [js ''png'', js ''jpg'', js ''jpeg'', js ''gif'', js ''webp'']"
    for w
    by (simp add: thumbnail_webp_ext)
  have 5: "decodeURI (p_base (path_parse ?s)) = Inr (js ''a.webp'')"
    by (simp add: thumbnail_webp)
  have 6: "getObject ?w1 (bucketName (path_parse ?s)) (js ''a.webp'')
           = S3_calls_back None (Some \<lparr>Body = Some [1, 2, 3]\<rparr>)"
    and e6: "getObject ?w2 (bucketName (path_parse ?s)) (js ''a.webp'')
           = S3_calls_back None (Some \<lparr>Body = Some [1, 2, 3]\<rparr>)"
    by (simp_all add: world_def stored_def)
  have 7: "\<not> is_404 None" by (simp add: is_404_def)
  have 8: "Body \<lparr>Body = Some [1, 2, 3]\<rparr> = Some [1, 2, 3]" by simp
  have 9: "sizeOf ?w1 [1, 2, 3] = Inr (Some ?small)"
    and e9: "sizeOf ?w2 [1, 2, 3] = Inr (Some ?equal)"
    by (simp_all add: world_def webp_image_def)
  have 10: "kind ?small = js ''webp''" and e10: "kind ?equal = js ''webp''"
    by simp_all
  have g: "js_gt (num (Some 300)) 100" and n: "\<not> js_gt (num (Some 300)) 300"
    by (simp_all add: js_gt_def num_def)
  have l: "length [9, 9 :: 8 word] \<le> 786432" by simp
  have a: "handler ?w1 ?r
           = [(120, Callback_result (success ?r (base64 [1, 2, 3]) (js ''image/webp'')))]"
    using no_upscale_passthrough [OF 1 request_ok 3 4 5 6 7 8 9 10] g
    by (simp add: world_def)
  have "Sharp ?w2 [1, 2, 3]
          (List.member [js ''gif'', js ''webp''] (ext ?w2 (path_parse ?s)))
          (num (box_x ?b)) (num (box_y ?b)) = Inr [9, 9]"
    by (simp add: world_def)
  then have b: "handler ?w2 ?r
           = [(150, Callback_result (success ?r (base64 [9, 9]) (js ''image/webp'')))]"
    using no_upscale_passthrough [OF 1 request_ok 3 4 5 e6 7 8 e9 e10] n l
    by (simp add: world_def)
  from a b g n show ?thesis
    by (simp add: imageType_at)
qed

subsection \<open>The profile \<open>original\<close>\<close>

text \<open>
  Claim C4, as the specification states it: for the profile \<open>original\<close> and a raster
  extension the fetched bytes are passed through unchanged in the 200 response.

  It fails for \<open>/image/original/a.png\<close>: the target of \<open>original\<close> is \<open>null\<close> by
  \<open>null\<close>, \<open>null > n\<close> is false for every probed size, so the bypass of line 225 is never
  taken and the body is the base64 text of what the codec returns.
\<close>

theorem original_counterexample:
  "handler (world (stored [1, 2, 3]) 120 (png_image 10 10) (Inr [9, 9]))
       (request ''/image/original/a.png'')
     = [(150, Callback_result
                (success (request ''/image/original/a.png'') (base64 [9, 9])
                   (js ''image/webp'')))]
   \<and> base64 [9, 9] \<noteq> base64 [1, 2, 3]"
proof (intro conjI)
  show "base64 [9, 9] \<noteq> base64 [1, 2, 3]"
    unfolding base64_examples by simp
qed (simp_all add: original_png_run original_png original_png_ext
      imageType_at validType_at run_defs)

text \<open>
  Claim C4, amended: for the profile \<open>original\<close>, one of the raster extensions
  \<open>png\<close>, \<open>jpg\<close>, \<open>jpeg\<close>, \<open>gif\<close>, \<open>webp\<close>, and a fetched body that the probe accepts,
  no scaling is asked for (the codec is called with \<open>null\<close> for both target
  dimensions), but the original bytes are not passed through: they always go to the codec
  chain, which re-encodes them as WebP. The codec's error goes to the callback; an output
  of at most 786,432 bytes is delivered with status 200 as base64 text with content type
  \<open>image/webp\<close>; an output of more than 1,048,576 bytes is answered with the redirect.
\<close>

theorem original_is_transcoded:
  assumes "decodeURIComponent (uri ev) = Inr s"
    and "status (response ev) \<noteq> js ''404''"
    and "pathParse2 (path_parse s) = Some (js ''original'')"
    and "ext e (path_parse s) \<in> set [js ''png'', js ''jpg'', js ''jpeg'', js ''gif'', js ''webp'']"
    and "decodeURI (p_base (path_parse s)) = Inr k"
    and "getObject e BUCKET_image k = S3_calls_back err (Some d)"
    and "\<not> is_404 err"
    and "Body d = Some bytes"
    and "sizeOf e bytes = Inr probe"
  shows "case Sharp e bytes (List.member [js ''gif'', js ''webp''] (ext e (path_parse s)))
                JNull JNull of
           Inl er \<Rightarrow> handler e ev = [(getObject_ms e + Sharp_ms e, Callback_error er)]
         | Inr resizedImage \<Rightarrow>
             (length resizedImage \<le> 786432 \<longrightarrow>
                handler e ev =
                  [(getObject_ms e + Sharp_ms e,
                    Callback_result (success ev (base64 resizedImage) (js ''image/webp'')))])
             \<and> (1024 * 1024 < length resizedImage \<longrightarrow>
                  handler e ev =
                    [(getObject_ms e + Sharp_ms e,
                      Callback_result
                        (redirect ev (polyfillHost @ js ''/prod/image/original/'' @ k)))])"
proof -
  let ?p = "path_parse s"
  note r = raster_ext [OF assms(4)]
  have run: "handler e ev =
     (case Sharp e bytes (List.member [js ''gif'', js ''webp''] (ext e ?p)) JNull JNull of
        Inl er \<Rightarrow> [(getObject_ms e + Sharp_ms e, Callback_error er)]
      | Inr resizedImage \<Rightarrow>
          [(getObject_ms e + Sharp_ms e, then_resized ev ?p resizedImage)])"
    using assms(1-3,5-9) r
    by (simp add: handler_decoded s3_callback_def imageType_at ToString_def truthy_def
        bucketName_def dims_def num_def null_never_greater)
  have loc: "locationValue ?p = Inr (polyfillHost @ js ''/prod/image/original/'' @ k)"
    using assms(3,5) by (simp add: locationValue_def ToString_def js_append2)
  have small: "then_resized ev ?p x = Callback_result (success ev (base64 x) (js ''image/webp''))"
    if "length x \<le> 786432" for x
    using base64_within [OF that] by (simp add: then_resized_def Let_def)
  have big: "then_resized ev ?p x
             = Callback_result (redirect ev (polyfillHost @ js ''/prod/image/original/'' @ k))"
    if "1024 * 1024 < length x" for x
    using base64_beyond [OF that] loc by (simp add: then_resized_def Let_def)
  show ?thesis
    using run small big by (auto split: sum.splits)
qed

text \<open>Claim C4, amended, at \<open>/image/original/a.png\<close> and a codec output of two bytes.\<close>

theorem original_is_transcoded_witness:
  "handler (world (stored [1, 2, 3]) 120 (png_image 10 10) (Inr [9, 9]))
       (request ''/image/original/a.png'')
     = [(150, Callback_result
                (success (request ''/image/original/a.png'') (base64 [9, 9])
                   (js ''image/webp'')))]"
proof -
  let ?w = "world (stored [1, 2, 3]) 120 (png_image 10 10) (Inr [9, 9])"
  let ?r = "request ''/image/original/a.png''"
  let ?s = "js ''/image/original/a.png''"
  have 1: "decodeURIComponent (uri ?r) = Inr ?s"
    by (simp add: request_def original_png)
  have 4: "ext ?w (path_parse ?s) \<in> set [js ''png'', js ''jpg'', js ''jpeg'', js ''gif'', js ''webp'']"
    by (simp add: original_png_ext)
  have 5: "decodeURI (p_base (path_parse ?s)) = Inr (js ''a.png'')"
    by (simp add: original_png)
  have 6: "getObject ?w BUCKET_image (js ''a.png'')
           = S3_calls_back None (Some \<lparr>Body = Some [1, 2, 3]\<rparr>)"
    by (simp add: world_def stored_def)
  have 7: "\<not> is_404 None" by (simp add: is_404_def)
  have 8: "Body \<lparr>Body = Some [1, 2, 3]\<rparr> = Some [1, 2, 3]" by simp
  have 9: "sizeOf ?w [1, 2, 3] = Inr (png_image 10 10)"
    by (simp add: world_def)
  show ?thesis
    using original_is_transcoded [OF 1 request_ok original_png(2) 4 5 6 7 8 9]
    by (simp add: world_def)
qed

subsection \<open>The vector extensions\<close>

text \<open>
  Claim C5: for both vector extensions of the table, \<open>svg\<close> and \<open>svg+xml\<close>, the fetched
  bytes are returned unchanged with content type \<open>image/svg+xml\<close>, and nothing is probed
  or resized.

  The \<open>switch\<close> of line 209 has a case for \<open>svg\<close> only. A file with the extension
  \<open>svg+xml\<close> passes the check against \<open>validType\<close> and then falls into the default case:
  it is probed, handed to the codec and answered as \<open>image/webp\<close>. In the run below the
  probe reports an SVG of 10 by 10 and the codec returns two bytes.
\<close>

theorem svg_xml_is_transcoded:
  "handler (world (stored [60, 115, 118, 103, 62]) 120
              (Some \<lparr>width = 10, height = 10, kind = js ''svg''\<rparr>) (Inr [9, 9]))
     (request ''/image/original/logo.svg+xml'')
   = [(150, Callback_result
              (success (request ''/image/original/logo.svg+xml'') (base64 [9, 9])
                 (js ''image/webp'')))]"
  by (simp add: original_svg_xml_run original_svg_xml original_svg_xml_ext
      imageType_at validType_at run_defs)

subsection \<open>After the fetch\<close>

text \<open>
  Claim C6, as the specification states it, says of a body that is present but empty
  that the response is 404.

  An object of zero bytes arrives as an empty \<open>Buffer\<close>, which is an object and so
  truthy: \<open>!data.Body\<close> is false. For \<open>/image/original/a.svg\<close> the response is 200
  with an empty body.
\<close>

theorem empty_body_counterexample:
  "getObject (world (stored []) 120 None (Inr [])) BUCKET_image (js ''a.svg'')
     = S3_calls_back None (Some \<lparr>Body = Some []\<rparr>)
   \<and> handler (world (stored []) 120 None (Inr [])) (request ''/image/original/a.svg'')
     = [(120, Callback_result
                (success (request ''/image/original/a.svg'') [] (js ''image/svg+xml'')))]
   \<and> status (success (request ''/image/original/a.svg'') [] (js ''image/svg+xml'')) = js ''200''"
  by (simp add: original_svg_run original_svg original_svg_ext
      imageType_at validType_at run_defs)

text \<open>
  Claim C6, amended: after the fetch for a request that passed the profile and extension
  checks, when the store did not report a 404: if the callback carries no data object,
  the response is HTTP 500 with the body
  \<open>{"errorCode":"500","errorMsg":"The file is not normal."}\<close>; if it carries a data
  object without a \<open>Body\<close>, the response is HTTP 404 with the body
  \<open>{"errorCode":"404","errorMsg":"Not Found"}\<close>. (A \<open>Body\<close> of zero bytes is present, and is
  handled like any other body.)
\<close>

theorem origin_body_check:
  assumes "decodeURIComponent (uri ev) = Inr s"
    and "status (response ev) \<noteq> js ''404''"
    and "truthy (js_get imageType (ToString (pathParse2 (path_parse s))))"
    and "truthy (js_get validType (ext e (path_parse s)))"
    and "decodeURI (p_base (path_parse s)) = Inr k"
    and "getObject e (bucketName (path_parse s)) k = S3_calls_back err data"
    and "\<not> is_404 err"
  shows \<open>(data = None \<longrightarrow>
            handler e ev =
              [(getObject_ms e,
                Callback_result (failure ev (js ''500'') [] (js ''The file is not normal.'')))])
         \<and> (\<forall>d. data = Some d \<and> Body d = None \<longrightarrow>
              handler e ev = [(getObject_ms e, Callback_result (notFound ev))])
         \<and> status (failure ev (js ''500'') [] (js ''The file is not normal.'')) = js ''500''
         \<and> body (failure ev (js ''500'') [] (js ''The file is not normal.''))
           = Some (js ''{"errorCode":"500","errorMsg":"The file is not normal."}'')
         \<and> status (notFound ev) = js ''404''
         \<and> body (notFound ev) = Some (js ''{"errorCode":"404","errorMsg":"Not Found"}'')\<close>
  using assms
  by (simp add: handler_decoded s3_callback_def failure_def notFound_def
      json_error_def js_append)

text \<open>
  Claim C6, amended, at two stores: one that calls back with an error of status 500 and
  no data, one that calls back with a data object that has no \<open>Body\<close>.
\<close>

theorem origin_body_check_witness:
  "handler (world (S3_calls_back (Some \<lparr>statusCode = Some 500\<rparr>) None) 120 None (Inr []))
     (request ''/image/original/a.png'')
   = [(120, Callback_result
              (failure (request ''/image/original/a.png'') (js ''500'') []
                 (js ''The file is not normal.'')))]
   \<and> handler (world (S3_calls_back None (Some \<lparr>Body = None\<rparr>)) 120 None (Inr []))
       (request ''/image/original/a.png'')
     = [(120, Callback_result (notFound (request ''/image/original/a.png'')))]"
proof -
  let ?w1 = "world (S3_calls_back (Some \<lparr>statusCode = Some 500\<rparr>) None) 120 None (Inr [])"
  let ?w2 = "world (S3_calls_back None (Some \<lparr>Body = None\<rparr>)) 120 None (Inr [])"
  let ?r = "request ''/image/original/a.png''"
  let ?s = "js ''/image/original/a.png''"
  have 1: "decodeURIComponent (uri ?r) = Inr ?s"
    by (simp add: request_def original_png)
  have 3: "truthy (js_get imageType (ToString (pathParse2 (path_parse ?s))))"
    by (simp add: original_png ToString_def imageType_at truthy_def)
  have 4: "truthy (js_get validType (ext e (path_parse ?s)))" for e
    by (simp add: original_png_ext validType_at truthy_def)
  have 5: "decodeURI (p_base (path_parse ?s)) = Inr (js ''a.png'')"
    by (simp add: original_png)
  have 6: "getObject ?w1 (bucketName (path_parse ?s)) (js ''a.png'')
           = S3_calls_back (Some \<lparr>statusCode = Some 500\<rparr>) None"
    by (simp add: world_def)
  have 7: "\<not> is_404 (Some \<lparr>statusCode = Some 500\<rparr>)" by (simp add: is_404_def)
  have 8: "getObject ?w2 (bucketName (path_parse ?s)) (js ''a.png'')
           = S3_calls_back None (Some \<lparr>Body = None\<rparr>)"
    by (simp add: world_def)
  have 9: "\<not> is_404 None" by (simp add: is_404_def)
  have a: "handler ?w1 ?r = [(120, Callback_result
              (failure ?r (js ''500'') [] (js ''The file is not normal.'')))]"
    using origin_body_check [OF 1 request_ok 3 4 5 6 7] by (simp add: world_def)
  have b: "handler ?w2 ?r = [(120, Callback_result (notFound ?r))]"
    using origin_body_check [OF 1 request_ok 3 4 5 8 9] by (simp add: world_def)
  from a b show ?thesis by blast
qed

subsection \<open>The profile and extension checks\<close>

text \<open>
  Claim C7: a request whose profile name is not in the profile table is answered with
  404, whatever the extension and the store.

  The check of line 151 is \<open>!imageType[pathParse[2]]\<close>, a property lookup on an object
  literal, which also finds what every object inherits from \<open>Object.prototype\<close>. The
  name \<open>constructor\<close> is not a profile, yet \<open>imageType['constructor']\<close> is a function
  and truthy: the request passes the check, the object is fetched, and the response is
  200.
\<close>

theorem inherited_profile_is_served:
  "handler (world (stored [60, 115, 118, 103, 62]) 120 None (Inr []))
     (request ''/image/constructor/a.svg'')
   = [(120, Callback_result
              (success (request ''/image/constructor/a.svg'') (base64 [60, 115, 118, 103, 62])
                 (js ''image/svg+xml'')))]"
  by (simp add: constructor_svg_run constructor_svg constructor_svg_ext
      original_svg imageType_at validType_at run_defs)

text \<open>
  Claim C8: with a known profile, an extension that is not in the extension table is
  answered with 403, and the store is not asked.

  The check of line 163 is \<open>!validType[ext]\<close>, the same kind of lookup. The extension
  \<open>constructor\<close> is not in the table, yet \<open>validType['constructor']\<close> is truthy: the
  object is fetched, handed to the codec, and the response is 200.
\<close>

theorem inherited_extension_is_served:
  "handler (world (stored [1, 2, 3]) 120 (png_image 10 10) (Inr [9, 9]))
     (request ''/image/original/a.constructor'')
   = [(150, Callback_result
              (success (request ''/image/original/a.constructor'') (base64 [9, 9])
                 (js ''image/webp'')))]"
  by (simp add: original_constructor_run original_constructor
      original_constructor_ext imageType_at validType_at run_defs)

subsection \<open>The headers of a redirect\<close>

lemma redirect_cache_control:
  "headers (redirect ev l) (js ''cache-control'')
   = Some [\<lparr>hkey = Some (js ''Cache-Control''), hvalue = js ''max-age=31536000''\<rparr>]"
  by (simp add: redirect_def responseSuccessHeaders_def)

lemma s3_callback_302:
  assumes "(t', Callback_result r) \<in> set (s3_callback e ev p t err data)"
    and "status r = js ''302''"
  shows "\<exists>l. r = redirect ev l"
  using assms unfolding s3_callback_def then_resized_def
  by (auto simp: Let_def split: if_splits option.splits sum.splits prod.splits)

lemma handler_302:
  assumes "(t, Callback_result r) \<in> set (handler e ev)" and "status r = js ''302''"
  shows "\<exists>l. r = redirect ev l"
proof (cases "decodeURIComponent (uri ev)")
  case (Inl er)
  then show ?thesis using assms by (simp add: handler_def)
next
  case (Inr s)
  then show ?thesis
    using assms s3_callback_302
    by (auto simp: handler_decoded split: if_splits sum.splits s3_reply.splits)
qed

lemma oversized_passthrough_run:
  "handler (world (stored (replicate 1048577 0)) 120 (webp_image 100 100) (Inr []))
     (request ''/image/thumbnail/a.webp'')
   = [(120, Callback_result
              (redirect (request ''/image/thumbnail/a.webp'')
                 (polyfillHost @ js ''/prod/image/thumbnail/a.webp'')))]"
  by (simp add: thumbnail_webp_run thumbnail_webp thumbnail_webp_ext
      imageType_at validType_at run_defs js_append)

text \<open>
  Claim C9: every response with status 302 that the handler passes to the callback, and
  the response the timer's callback builds, carries
  \<open>Cache-Control: max-age=31536000\<close> from the success header set.
\<close>

theorem every_redirect_keeps_max_age:
  "(\<forall>t r. (t, Callback_result r) \<in> set (handler e ev) \<and> status r = js ''302'' \<longrightarrow>
      headers r (js ''cache-control'')
      = Some [\<lparr>hkey = Some (js ''Cache-Control''), hvalue = js ''max-age=31536000''\<rparr>])
   \<and> (\<forall>r. timeout_callback ev p = Callback_result r \<longrightarrow>
        status r = js ''302'' \<and>
        headers r (js ''cache-control'')
        = Some [\<lparr>hkey = Some (js ''Cache-Control''), hvalue = js ''max-age=31536000''\<rparr>])"
proof (intro conjI allI impI)
  fix t r
  assume "(t, Callback_result r) \<in> set (handler e ev) \<and> status r = js ''302''"
  then obtain l where "r = redirect ev l"
    using handler_302 by blast
  then show "headers r (js ''cache-control'')
      = Some [\<lparr>hkey = Some (js ''Cache-Control''), hvalue = js ''max-age=31536000''\<rparr>]"
    by (simp add: redirect_cache_control)
next
  fix r
  assume a: "timeout_callback ev p = Callback_result r"
  then obtain l where l: "r = redirect ev l"
    by (auto simp: timeout_callback_def split: sum.splits)
  show "status r = js ''302''" using l by simp
  show "headers r (js ''cache-control'')
        = Some [\<lparr>hkey = Some (js ''Cache-Control''), hvalue = js ''max-age=31536000''\<rparr>]"
    using l by (simp add: redirect_cache_control)
qed

text \<open>
  Claim C9 at the redirect of the size check of line 227, for a stored WebP of
  1,048,577 bytes, and at the redirect that the timer's callback builds for the same
  request.
\<close>

theorem every_redirect_keeps_max_age_witness:
  "(120, Callback_result (redirect (request ''/image/thumbnail/a.webp'')
           (polyfillHost @ js ''/prod/image/thumbnail/a.webp'')))
     \<in> set (handler (world (stored (replicate 1048577 0)) 120 (webp_image 100 100) (Inr []))
              (request ''/image/thumbnail/a.webp''))
   \<and> timeout_callback (request ''/image/thumbnail/a.webp'')
       (path_parse (js ''/image/thumbnail/a.webp''))
     = Callback_result (redirect (request ''/image/thumbnail/a.webp'')
         (polyfillHost @ js ''/prod/image/thumbnail/a.webp''))
   \<and> status (redirect (request ''/image/thumbnail/a.webp'')
               (polyfillHost @ js ''/prod/image/thumbnail/a.webp'')) = js ''302''
   \<and> headers (redirect (request ''/image/thumbnail/a.webp'')
               (polyfillHost @ js ''/prod/image/thumbnail/a.webp'')) (js ''cache-control'')
     = Some [\<lparr>hkey = Some (js ''Cache-Control''), hvalue = js ''max-age=31536000''\<rparr>]"
proof -
  let ?r = "redirect (request ''/image/thumbnail/a.webp'')
              (polyfillHost @ js ''/prod/image/thumbnail/a.webp'')"
  let ?w = "world (stored (replicate 1048577 0)) 120 (webp_image 100 100) (Inr [])"
  let ?p = "path_parse (js ''/image/thumbnail/a.webp'')"
  have m: "(120, Callback_result ?r) \<in> set (handler ?w (request ''/image/thumbnail/a.webp''))"
    by (simp add: oversized_passthrough_run)
  have c: "timeout_callback (request ''/image/thumbnail/a.webp'') ?p = Callback_result ?r"
    by (simp add: timeout_callback_def locationValue_def thumbnail_webp ToString_def js_append)
  have s: "status ?r = js ''302''" by simp
  note all = every_redirect_keeps_max_age [of ?w "request ''/image/thumbnail/a.webp''" ?p]
  from all m s
  have h: "headers ?r (js ''cache-control'')
     = Some [\<lparr>hkey = Some (js ''Cache-Control''), hvalue = js ''max-age=31536000''\<rparr>]"
    by blast
  from all c have "status ?r = js ''302''"
    by blast
  with m c h show ?thesis by blast
qed

subsection \<open>The key\<close>


subsection \<open>Further properties of the decision pipeline\<close>

text \<open>
  Every invocation gives exactly one completion signal: whatever the event and the world,
  the trace of the handler has one entry.
\<close>

theorem exactly_one_signal:
  "\<exists>t r. handler e ev = [(t, r)]"
  by (rule handler_single)

text \<open>
  An origin response with status 404 is answered at once with 404 and the body
  \<open>{"errorCode":"404","errorMsg":"Not Found"}\<close>, before any table is consulted
  (lines 138 to 148).
\<close>

theorem upstream_not_found:
  assumes "decodeURIComponent (uri ev) = Inr s"
    and "status (response ev) = js ''404''"
  shows \<open>handler e ev = [(0, Callback_result (notFound ev))]
         \<and> status (notFound ev) = js ''404''
         \<and> statusDescription (notFound ev) = js ''Not Found''
         \<and> bodyEncoding (notFound ev) = Some (js ''text'')
         \<and> body (notFound ev) = Some (js ''{"errorCode":"404","errorMsg":"Not Found"}'')\<close>
  using assms
  by (simp add: handler_decoded notFound_def failure_def json_error_def js_append)

text \<open>At \<open>/image/original/a.png\<close> with an origin response of status 404.\<close>

theorem upstream_not_found_witness:
  "handler (world (stored [1, 2, 3]) 120 None (Inr [])) \<lparr>uri = js ''/image/original/a.png'',
               response = \<lparr>status = js ''404'', statusDescription = js ''Not Found'',
                            headers = Map.empty\<rparr>\<rparr>
   = [(0, Callback_result
            (notFound \<lparr>uri = js ''/image/original/a.png'',
                        response = \<lparr>status = js ''404'', statusDescription = js ''Not Found'',
                                     headers = Map.empty\<rparr>\<rparr>))]"
proof -
  let ?ev = "\<lparr>uri = js ''/image/original/a.png'',
               response = \<lparr>status = js ''404'', statusDescription = js ''Not Found'',
                            headers = Map.empty\<rparr>\<rparr>"
  have 1: "decodeURIComponent (uri ?ev) = Inr (js ''/image/original/a.png'')"
    by (simp add: original_png)
  have 2: "status (response ?ev) = js ''404''" by simp
  from upstream_not_found [OF 1 2, of "world (stored [1, 2, 3]) 120 None (Inr [])"]
  show ?thesis by blast
qed

text \<open>
  A profile name for which the lookup in \<open>imageType\<close> finds nothing, neither a profile nor
  a property inherited from \<open>Object.prototype\<close>, is answered with 404 and the body
  \<open>{"errorCode":"404","errorMsg":"Not Found"}\<close>, whatever the extension and the store
  (lines 150 to 160).
\<close>

theorem unknown_profile_not_found:
  assumes "decodeURIComponent (uri ev) = Inr s"
    and "js_get imageType (ToString (pathParse2 (path_parse s))) = Missing"
  shows \<open>handler e ev = [(0, Callback_result (notFound ev))]
         \<and> status (notFound ev) = js ''404''
         \<and> body (notFound ev) = Some (js ''{"errorCode":"404","errorMsg":"Not Found"}'')\<close>
  using assms
  by (simp add: handler_decoded truthy_def notFound_def failure_def json_error_def
      js_append)

text \<open>At \<open>/image/unknownprofile/x.png\<close>.\<close>

theorem unknown_profile_not_found_witness:
  "handler (world (stored [1, 2, 3]) 120 None (Inr []))
     (request ''/image/unknownprofile/x.png'')
   = [(0, Callback_result (notFound (request ''/image/unknownprofile/x.png'')))]"
proof -
  let ?r = "request ''/image/unknownprofile/x.png''"
  have 1: "decodeURIComponent (uri ?r) = Inr (js ''/image/unknownprofile/x.png'')"
    by (simp add: request_def unknown_profile_png)
  have 2: "js_get imageType (ToString (pathParse2 (path_parse (js ''/image/unknownprofile/x.png''))))
           = Missing"
    by (simp add: unknown_profile_png ToString_def imageType_at)
  from unknown_profile_not_found [OF 1 2, of "world (stored [1, 2, 3]) 120 None (Inr [])"]
  show ?thesis by blast
qed

text \<open>
  With an origin response that is not a 404 and a profile that passes its check, an
  extension for which the lookup in \<open>validType\<close> finds nothing is answered with 403 and
  the body \<open>{"errorCode":"403","errorMsg":"Unsupported extension."}\<close>; the store is not
  asked (lines 162 to 172).
\<close>

theorem unsupported_extension_forbidden:
  assumes "decodeURIComponent (uri ev) = Inr s"
    and "status (response ev) \<noteq> js ''404''"
    and "truthy (js_get imageType (ToString (pathParse2 (path_parse s))))"
    and "js_get validType (ext e (path_parse s)) = Missing"
  shows \<open>handler e ev =
           [(0, Callback_result
                  (failure ev (js ''403'') (js ''Unsupported extension.'')
                     (js ''Unsupported extension.'')))]
         \<and> status (failure ev (js ''403'') (js ''Unsupported extension.'')
                     (js ''Unsupported extension.'')) = js ''403''
         \<and> body (failure ev (js ''403'') (js ''Unsupported extension.'')
                   (js ''Unsupported extension.''))
           = Some (js ''{"errorCode":"403","errorMsg":"Unsupported extension."}'')\<close>
  using assms
  by (simp add: handler_decoded truthy_def failure_def json_error_def js_append)

text \<open>At \<open>/image/original/picture.bmp\<close>.\<close>

theorem unsupported_extension_forbidden_witness:
  "handler (world (stored [1, 2, 3]) 120 None (Inr []))
     (request ''/image/original/picture.bmp'')
   = [(0, Callback_result
            (failure (request ''/image/original/picture.bmp'') (js ''403'')
               (js ''Unsupported extension.'') (js ''Unsupported extension.'')))]"
proof -
  let ?r = "request ''/image/original/picture.bmp''"
  let ?s = "js ''/image/original/picture.bmp''"
  have 1: "decodeURIComponent (uri ?r) = Inr ?s"
    by (simp add: request_def original_bmp)
  have 3: "truthy (js_get imageType (ToString (pathParse2 (path_parse ?s))))"
    by (simp add: original_bmp ToString_def imageType_at truthy_def)
  have 4: "js_get validType
             (ext (world (stored [1, 2, 3]) 120 None (Inr [])) (path_parse ?s)) = Missing"
    by (simp add: original_bmp_ext validType_at)
  from unsupported_extension_forbidden [OF 1 request_ok 3 4] show ?thesis by blast
qed

text \<open>
  For the extension \<open>svg\<close> the fetched bytes are returned as they are, base64-encoded,
  with content type \<open>image/svg+xml\<close>; nothing is probed and no size is checked
  (lines 209 to 214).
\<close>

theorem svg_passthrough:
  assumes "decodeURIComponent (uri ev) = Inr s"
    and "status (response ev) \<noteq> js ''404''"
    and "truthy (js_get imageType (ToString (pathParse2 (path_parse s))))"
    and "ext e (path_parse s) = js ''svg''"
    and "decodeURI (p_base (path_parse s)) = Inr k"
    and "getObject e (bucketName (path_parse s)) k = S3_calls_back err (Some d)"
    and "\<not> is_404 err"
    and "Body d = Some bytes"
  shows "handler e ev =
           [(getObject_ms e,
             Callback_result (success ev (base64 bytes) (js ''image/svg+xml'')))]
         \<and> headers (success ev (base64 bytes) (js ''image/svg+xml'')) (js ''content-type'')
           = Some [\<lparr>hkey = Some (js ''Content-Type''), hvalue = js ''image/svg+xml''\<rparr>]
         \<and> bodyEncoding (success ev (base64 bytes) (js ''image/svg+xml'')) = Some (js ''base64'')
         \<and> body (success ev (base64 bytes) (js ''image/svg+xml'')) = Some (base64 bytes)"
  using assms
  by (simp add: handler_decoded s3_callback_def validType_at truthy_def
      success_def)

text \<open>At \<open>/image/original/a.svg\<close> with a stored object of five bytes.\<close>

theorem svg_passthrough_witness:
  "handler (world (stored [60, 115, 118, 103, 62]) 120 None (Inr []))
     (request ''/image/original/a.svg'')
   = [(120, Callback_result
              (success (request ''/image/original/a.svg'') (base64 [60, 115, 118, 103, 62])
                 (js ''image/svg+xml'')))]"
proof -
  let ?w = "world (stored [60, 115, 118, 103, 62]) 120 None (Inr [])"
  let ?r = "request ''/image/original/a.svg''"
  let ?s = "js ''/image/original/a.svg''"
  have 1: "decodeURIComponent (uri ?r) = Inr ?s"
    by (simp add: request_def original_svg)
  have 3: "truthy (js_get imageType (ToString (pathParse2 (path_parse ?s))))"
    by (simp add: original_svg ToString_def imageType_at truthy_def)
  have 5: "decodeURI (p_base (path_parse ?s)) = Inr (js ''a.svg'')"
    by (simp add: original_svg)
  have 6: "getObject ?w (bucketName (path_parse ?s)) (js ''a.svg'')
           = S3_calls_back None (Some \<lparr>Body = Some [60, 115, 118, 103, 62]\<rparr>)"
    by (simp add: world_def stored_def)
  have 7: "\<not> is_404 None" by (simp add: is_404_def)
  have 8: "Body \<lparr>Body = Some [60, 115, 118, 103, 62]\<rparr> = Some [60, 115, 118, 103, 62]"
    by simp
  show ?thesis
    using svg_passthrough [OF 1 request_ok 3 original_svg_ext 5 6 7 8]
    by (simp add: world_def)
qed

text \<open>
  On both body-returning paths of the raster branch a candidate body of more than
  1,048,576 bytes is answered with the redirect to
  \<open>polyfillHost/prod/image/<profile>/<file name>\<close> and never delivered: on the bypass
  the candidate is the stored body, otherwise it is the codec's output (lines 225 to 239
  and 248 to 264).
\<close>

theorem oversized_body_is_redirected:
  assumes "decodeURIComponent (uri ev) = Inr s"
    and "status (response ev) \<noteq> js ''404''"
    and "dims (js_get imageType (ToString (pathParse2 (path_parse s)))) = Some (x, y)"
    and "truthy (js_get validType (ext e (path_parse s)))"
    and "ext e (path_parse s) \<noteq> js ''svg''"
    and "decodeURI (p_base (path_parse s)) = Inr k"
    and "getObject e (bucketName (path_parse s)) k = S3_calls_back err (Some d)"
    and "\<not> is_404 err"
    and "Body d = Some bytes"
    and "sizeOf e bytes = Inr probe"
    and "Sharp e bytes (List.member [js ''gif'', js ''webp''] (ext e (path_parse s))) x y
         = Inr resizedImage"
    and "1024 * 1024 < length (if no_upscale probe x y then bytes else resizedImage)"
  shows "handler e ev =
     [(if no_upscale probe x y then getObject_ms e else getObject_ms e + Sharp_ms e,
       Callback_result
         (redirect ev
            (polyfillHost @ js ''/prod/image/'' @ ToString (pathParse2 (path_parse s))
             @ js ''/'' @ k)))]"
proof -
  have t: "truthy (js_get imageType (ToString (pathParse2 (path_parse s))))"
    using assms(3) by (rule dims_truthy)
  show ?thesis
  proof (cases "no_upscale probe x y")
    case True
    then show ?thesis
      using assms t
      by (simp add: handler_decoded s3_callback_def locationValue_def)
  next
    case False
    then have "1024 * 1024 < length resizedImage"
      using assms(12) by simp
    then have "1024 * 1024 < length (base64 resizedImage)"
      by (simp add: base64_length)
    then show ?thesis
      using False assms t
      by (simp add: handler_decoded s3_callback_def then_resized_def
          locationValue_def Let_def)
  qed
qed

text \<open>
  At \<open>/image/thumbnail/a.webp\<close>, a source of 4000 by 3000, and a codec output of
  1,048,577 bytes.
\<close>

theorem oversized_body_is_redirected_witness:
  "handler (world (stored [1, 2, 3]) 120 (webp_image 4000 3000) (Inr (replicate 1048577 0)))
     (request ''/image/thumbnail/a.webp'')
   = [(150, Callback_result
              (redirect (request ''/image/thumbnail/a.webp'')
                 (polyfillHost @ js ''/prod/image/thumbnail/a.webp'')))]"
proof -
  let ?w = "world (stored [1, 2, 3]) 120 (webp_image 4000 3000) (Inr (replicate 1048577 0))"
  let ?r = "request ''/image/thumbnail/a.webp''"
  let ?s = "js ''/image/thumbnail/a.webp''"
  have 1: "decodeURIComponent (uri ?r) = Inr ?s"
    by (simp add: request_def thumbnail_webp)
  have 3: "dims (js_get imageType (ToString (pathParse2 (path_parse ?s))))
           = Some (JNum 300, JNum 300)"
    by (simp add: thumbnail_webp ToString_def imageType_at dims_def num_def)
  have 4: "truthy (js_get validType (ext ?w (path_parse ?s)))"
    by (simp add: thumbnail_webp_ext validType_at truthy_def)
  have 5: "ext ?w (path_parse ?s) \<noteq> js ''svg''"
    by (simp add: thumbnail_webp_ext)
  have 6: "decodeURI (p_base (path_parse ?s)) = Inr (js ''a.webp'')"
    by (simp add: thumbnail_webp)
  have 7: "getObject ?w (bucketName (path_parse ?s)) (js ''a.webp'')
           = S3_calls_back None (Some \<lparr>Body = Some [1, 2, 3]\<rparr>)"
    by (simp add: world_def stored_def)
  have 8: "\<not> is_404 None" by (simp add: is_404_def)
  have 9: "Body \<lparr>Body = Some [1, 2, 3]\<rparr> = Some [1, 2, 3]" by simp
  have 10: "sizeOf ?w [1, 2, 3] = Inr (webp_image 4000 3000)"
    by (simp add: world_def)
  have 11: "Sharp ?w [1, 2, 3] (List.member [js ''gif'', js ''webp''] (ext ?w (path_parse ?s)))
              (JNum 300) (JNum 300) = Inr (replicate 1048577 0)"
    by (simp add: world_def)
  have n: "\<not> no_upscale (webp_image 4000 3000) (JNum 300) (JNum 300)"
    by (simp add: no_upscale_def webp_image_def js_gt_def)
  have 12: "1024 * 1024 < length (if no_upscale (webp_image 4000 3000) (JNum 300) (JNum 300)
                                   then [1, 2, 3] else replicate 1048577 (0 :: 8 word))"
    using n by simp
  show ?thesis
    using oversized_body_is_redirected [OF 1 request_ok 3 4 5 6 7 8 9 10 11 12] n
    by (simp add: world_def thumbnail_webp ToString_def js_append2 js_append)
qed

end
